theory Spec2Isabelle
  imports Main
begin

section \<open>Python values used by the clients\<close>

text \<open>
  The clients exchange JSON with the server.  A decoded JSON document is a Python value:
  \<open>None\<close>, a \<open>bool\<close>, an \<open>int\<close>, a \<open>str\<close>, a \<open>list\<close> or a \<open>dict\<close> with string keys.
  A \<open>dict\<close> keeps its keys in insertion order, so it is an association list whose keys are
  distinct.  JSON numbers with a fractional part are left out of the model: no operation
  of the clients builds one, and no declared field of the models is a float.
\<close>

datatype json =
    JNull
  | JBool bool
  | JInt int
  | JStr string
  | JArr "json list"
  | JObj "(string \<times> json) list"

type_synonym dict = "(string \<times> json) list"

text \<open>The exceptions an operation can end with.\<close>

datatype failure =
    ValueError string
  | KeyError string
  | TypeError
  | AttributeError
  | ValidationError
  | RequestError
  | HTTPStatusError
  | JSONDecodeError

text \<open>Sequencing of statements that may raise: the first exception ends the call.\<close>

definition and_then :: "failure + 'a \<Rightarrow> ('a \<Rightarrow> failure + 'b) \<Rightarrow> failure + 'b" where
  "and_then r f = (case r of Inl e \<Rightarrow> Inl e | Inr x \<Rightarrow> f x)"

text \<open>\<open>d.keys()\<close>.\<close>

definition keys :: "dict \<Rightarrow> string list" where
  "keys d = map fst d"

text \<open>\<open>d[k] = v\<close> on a dict: an existing key keeps its place, a new key goes last.\<close>

fun setitem :: "string \<Rightarrow> json \<Rightarrow> dict \<Rightarrow> dict" where
  "setitem k v [] = [(k, v)]"
| "setitem k v ((k', v') # d) =
     (if k' = k then (k, v) # d else (k', v') # setitem k v d)"

text \<open>
  \<open>d[k1][k2] = v\<close>: the inner dict is looked up first (\<open>KeyError\<close> when \<open>k1\<close> is missing,
  \<open>TypeError\<close> when the value found is not a dict) and then updated in place.
\<close>

definition setitem_in :: "string \<Rightarrow> string \<Rightarrow> json \<Rightarrow> dict \<Rightarrow> failure + dict" where
  "setitem_in k1 k2 v d =
     (case map_of d k1 of
        None \<Rightarrow> Inl (KeyError k1)
      | Some (JObj inner) \<Rightarrow> Inr (setitem k1 (JObj (setitem k2 v inner)) d)
      | Some _ \<Rightarrow> Inl TypeError)"

text \<open>\<open>data[k]\<close> on a decoded JSON value, with a string subscript.\<close>

definition getitem :: "json \<Rightarrow> string \<Rightarrow> failure + json" where
  "getitem data k =
     (case data of
        JObj d \<Rightarrow> (case map_of d k of None \<Rightarrow> Inl (KeyError k) | Some v \<Rightarrow> Inr v)
      | _ \<Rightarrow> Inl TypeError)"

text \<open>\<open>data.get(k, default)\<close>: only a dict has the method.\<close>

definition get_default :: "json \<Rightarrow> string \<Rightarrow> json \<Rightarrow> failure + json" where
  "get_default data k dflt =
     (case data of
        JObj d \<Rightarrow> (case map_of d k of None \<Rightarrow> Inr dflt | Some v \<Rightarrow> Inr v)
      | _ \<Rightarrow> Inl AttributeError)"

text \<open>
  Truth value of an optional list, dict or string (all three are lists here):
  \<open>None\<close> and the empty value are falsy.
\<close>

definition truthy :: "'a list option \<Rightarrow> bool" where
  "truthy x = (case x of None \<Rightarrow> False | Some xs \<Rightarrow> xs \<noteq> [])"

text \<open>\<open>x or default\<close> for an optional list.\<close>

definition py_or :: "'a list option \<Rightarrow> 'a list \<Rightarrow> 'a list" where
  "py_or x dflt =
     (case x of None \<Rightarrow> dflt | Some xs \<Rightarrow> (if xs = [] then dflt else xs))"

text \<open>\<open>s.rstrip(chars)\<close>: drops every trailing character that occurs in \<open>chars\<close>.\<close>

definition rstrip :: "string \<Rightarrow> string \<Rightarrow> string" where
  "rstrip chars s = rev (dropWhile (\<lambda>c. c \<in> set chars) (rev s))"

text \<open>How argument values are written into a payload.\<close>

definition str_list :: "string list \<Rightarrow> json" where
  "str_list xs = JArr (map JStr xs)"

definition opt_json :: "('a \<Rightarrow> json) \<Rightarrow> 'a option \<Rightarrow> json" where
  "opt_json f x = (case x of None \<Rightarrow> JNull | Some y \<Rightarrow> f y)"


section \<open>models.py\<close>

subsection \<open>Enumerations\<close>

datatype OutputFormat = MARKDOWN | HTML | RAW_HTML | LINKS | SCREENSHOT | SCREENSHOT_FULL

fun OutputFormat_value :: "OutputFormat \<Rightarrow> string" where
  "OutputFormat_value MARKDOWN = ''markdown''"
| "OutputFormat_value HTML = ''html''"
| "OutputFormat_value RAW_HTML = ''rawHtml''"
| "OutputFormat_value LINKS = ''links''"
| "OutputFormat_value SCREENSHOT = ''screenshot''"
| "OutputFormat_value SCREENSHOT_FULL = ''screenshot@fullPage''"

definition OutputFormat_members :: "OutputFormat list" where
  "OutputFormat_members = [MARKDOWN, HTML, RAW_HTML, LINKS, SCREENSHOT, SCREENSHOT_FULL]"

datatype CrawlState = SCRAPING | COMPLETED | FAILED



text \<open>
  Validating a value against a \<open>str\<close>-valued enumeration: the member whose value equals
  the string, in declaration order; anything else is rejected.
\<close>

definition enum_validate :: "'e list \<Rightarrow> ('e \<Rightarrow> string) \<Rightarrow> json \<Rightarrow> failure + 'e" where
  "enum_validate members val j =
     (case j of
        JStr s \<Rightarrow> (case find (\<lambda>m. val m = s) members of
                     None \<Rightarrow> Inl ValidationError
                   | Some m \<Rightarrow> Inr m)
      | _ \<Rightarrow> Inl ValidationError)"

definition OutputFormat_validate :: "json \<Rightarrow> failure + OutputFormat" where
  "OutputFormat_validate = enum_validate OutputFormat_members OutputFormat_value"


subsection \<open>Field validators\<close>

text \<open>
  The models are declared with pydantic; what the library does with a scalar that is not
  already of the declared type (lax coercion to \<open>int\<close> and \<open>bool\<close>), and how it parses a
  URL or a timestamp, is not code of this repository.  These four library functions are
  parameters of every validator below; \<open>'u\<close> is the library's URL value and \<open>'d\<close> its
  \<open>datetime\<close>.
\<close>

record ('u, 'd) pydantic =
  lax_int :: "json \<Rightarrow> int option"
  lax_bool :: "json \<Rightarrow> bool option"
  HttpUrl :: "json \<Rightarrow> 'u option"
  datetime :: "json \<Rightarrow> 'd option"

definition from_option :: "'a option \<Rightarrow> failure + 'a" where
  "from_option x = (case x of None \<Rightarrow> Inl ValidationError | Some y \<Rightarrow> Inr y)"

definition validate_str :: "json \<Rightarrow> failure + string" where
  "validate_str j = (case j of JStr s \<Rightarrow> Inr s | _ \<Rightarrow> Inl ValidationError)"

definition validate_int :: "('u, 'd) pydantic \<Rightarrow> json \<Rightarrow> failure + int" where
  "validate_int P j = (case j of JInt n \<Rightarrow> Inr n | _ \<Rightarrow> from_option (lax_int P j))"


definition validate_url :: "('u, 'd) pydantic \<Rightarrow> json \<Rightarrow> failure + 'u" where
  "validate_url P j = from_option (HttpUrl P j)"


definition validate_dict :: "json \<Rightarrow> failure + dict" where
  "validate_dict j = (case j of JObj d \<Rightarrow> Inr d | _ \<Rightarrow> Inl ValidationError)"

fun validate_items :: "(json \<Rightarrow> failure + 'a) \<Rightarrow> json list \<Rightarrow> failure + 'a list" where
  "validate_items v [] = Inr []"
| "validate_items v (x # xs) =
     and_then (v x) (\<lambda>y. and_then (validate_items v xs) (\<lambda>ys. Inr (y # ys)))"

definition validate_list :: "(json \<Rightarrow> failure + 'a) \<Rightarrow> json \<Rightarrow> failure + 'a list" where
  "validate_list v j = (case j of JArr xs \<Rightarrow> validate_items v xs | _ \<Rightarrow> Inl ValidationError)"

text \<open>A field declared \<open>Optional[T] = None\<close>: a missing key and \<open>null\<close> both give \<open>None\<close>.\<close>

definition optional_field ::
  "(json \<Rightarrow> failure + 'a) \<Rightarrow> dict \<Rightarrow> string \<Rightarrow> failure + 'a option" where
  "optional_field v d k =
     (case map_of d k of
        None \<Rightarrow> Inr None
      | Some JNull \<Rightarrow> Inr None
      | Some j \<Rightarrow> and_then (v j) (\<lambda>y. Inr (Some y)))"

text \<open>A field with no default: a missing key is a validation error.\<close>

definition required_field ::
  "(json \<Rightarrow> failure + 'a) \<Rightarrow> dict \<Rightarrow> string \<Rightarrow> failure + 'a" where
  "required_field v d k =
     (case map_of d k of None \<Rightarrow> Inl ValidationError | Some j \<Rightarrow> v j)"

subsection \<open>Metadata\<close>

record 'u Metadata =
  title :: "string option"
  description :: "string option"
  language :: "string option"
  sourceURL :: 'u
  statusCode :: int
  error :: "string option"
  pydantic_extra :: dict

definition Metadata_fields :: "string list" where
  "Metadata_fields =
     [''title'', ''description'', ''language'', ''sourceURL'', ''statusCode'', ''error'']"

text \<open>
  \<open>Metadata.model_validate\<close>.  The model is configured with \<open>extra="allow"\<close>: every key of
  the input that is not a declared field is kept, with its value as it came, in the
  instance's extra dict.
\<close>

definition Metadata_validate :: "('u, 'd) pydantic \<Rightarrow> json \<Rightarrow> failure + 'u Metadata" where
  "Metadata_validate P j =
     (case j of
        JObj d \<Rightarrow>
          and_then (optional_field validate_str d ''title'') (\<lambda>t.
          and_then (optional_field validate_str d ''description'') (\<lambda>ds.
          and_then (optional_field validate_str d ''language'') (\<lambda>l.
          and_then (required_field (validate_url P) d ''sourceURL'') (\<lambda>u.
          and_then (required_field (validate_int P) d ''statusCode'') (\<lambda>c.
          and_then (optional_field validate_str d ''error'') (\<lambda>e.
            Inr \<lparr> title = t, description = ds, language = l, sourceURL = u,
                  statusCode = c, error = e,
                  pydantic_extra = filter (\<lambda>kv. fst kv \<notin> set Metadata_fields) d \<rparr>))))))
      | _ \<Rightarrow> Inl ValidationError)"

subsection \<open>ScrapeResult\<close>

text \<open>
  The fields \<open>raw_html\<close> and \<open>llm_extraction\<close> are read from their aliases \<open>rawHtml\<close> and
  \<open>llm_extraction\<close>.  The model has no \<open>extra\<close> setting, so undeclared keys are ignored.
\<close>

record 'u ScrapeResult =
  markdown :: "string option"
  html :: "string option"
  raw_html :: "string option"
  links :: "string list option"
  metadata :: "'u Metadata"
  llm_extraction :: "dict option"
  warning :: "string option"

definition ScrapeResult_validate ::
  "('u, 'd) pydantic \<Rightarrow> json \<Rightarrow> failure + 'u ScrapeResult" where
  "ScrapeResult_validate P j =
     (case j of
        JObj d \<Rightarrow>
          and_then (optional_field validate_str d ''markdown'') (\<lambda>md.
          and_then (optional_field validate_str d ''html'') (\<lambda>h.
          and_then (optional_field validate_str d ''rawHtml'') (\<lambda>rh.
          and_then (optional_field (validate_list validate_str) d ''links'') (\<lambda>ls.
          and_then (required_field (Metadata_validate P) d ''metadata'') (\<lambda>m.
          and_then (optional_field validate_dict d ''llm_extraction'') (\<lambda>x.
          and_then (optional_field validate_str d ''warning'') (\<lambda>w.
            Inr \<lparr> markdown = md, html = h, raw_html = rh, links = ls, metadata = m,
                  llm_extraction = x, warning = w \<rparr>)))))))
      | _ \<Rightarrow> Inl ValidationError)"

subsection \<open>CrawlStatus, CrawlJob, MapResult\<close>

text \<open>
  \<open>expires_at\<close> is read from its alias \<open>expiresAt\<close>.  The field \<open>next\<close> is written
  \<open>next_cursor\<close>, and the fields of \<open>CrawlJob\<close> and \<open>MapResult\<close> carry the prefixes \<open>job_\<close>
  and \<open>map_\<close>: \<open>success\<close> and \<open>links\<close> are declared by two models, and \<open>id\<close> is the
  identity function of HOL.
\<close>

record ('u, 'd) CrawlStatus =
  status :: CrawlState
  total :: int
  completed :: int
  expires_at :: 'd
  next_cursor :: "string option"
  data :: "'u ScrapeResult list"







section \<open>The HTTP transport\<close>

text \<open>
  Each client owns a transport object of its HTTP library (\<open>requests.Session\<close>,
  \<open>httpx.AsyncClient\<close>) and calls three things on it: the request method, which raises
  or returns a response; \<open>raise_for_status\<close> on the response, which raises on an error
  status or returns; and \<open>json\<close> on the response, which raises or returns the decoded body.
  The libraries are not code of this repository: a transport is any function from
  requests to outcomes, and a response is the outcome of its two methods.  Awaiting a
  coroutine of the asynchronous client gives the value the coroutine returns, or its
  exception; suspension itself has no counterpart in the model.
\<close>

datatype http_verb = GET | POST | DELETE

record request =
  verb :: http_verb
  request_url :: string
  json_payload :: "json option"

record response =
  raise_for_status :: "failure option"
  resp_json :: "failure + json"

type_synonym transport = "request \<Rightarrow> failure + response"

text \<open>A transport whose server answers every request with the same response.\<close>

definition always :: "response \<Rightarrow> transport" where
  "always r req = Inr r"

text \<open>\<open>resp.raise_for_status()\<close> as a statement.\<close>

definition check_status :: "response \<Rightarrow> failure + unit" where
  "check_status resp = (case raise_for_status resp of None \<Rightarrow> Inr () | Some e \<Rightarrow> Inl e)"

section \<open>Keyword arguments of the operations\<close>

text \<open>
  Both clients declare the same parameters with the same defaults.  The positional
  parameter \<open>url\<close> (or \<open>job_id\<close>) is passed on its own; the keyword parameters of an
  operation are a record, and \<open>scrape_defaults\<close>, \<open>crawl_defaults\<close> and \<open>map_defaults\<close> hold
  the values a call gets when it passes none of them.  The parameters \<open>ignore_sitemap\<close>
  and \<open>limit\<close> of \<open>map\<close> are written \<open>map_ignore_sitemap\<close> and \<open>map_limit\<close>, since \<open>crawl\<close>
  declares the same names.
\<close>

record scrape_options =
  formats :: "string list option"
  include_tags :: "string list option"
  exclude_tags :: "string list option"
  headers :: "dict option"
  wait_for :: int
  timeout :: int
  extract_schema :: "dict option"
  extract_system_prompt :: "string option"
  extract_prompt :: "string option"

definition scrape_defaults :: scrape_options where
  "scrape_defaults =
     \<lparr> formats = None, include_tags = None, exclude_tags = None, headers = None,
       wait_for = 0, timeout = 30000, extract_schema = None,
       extract_system_prompt = None, extract_prompt = None \<rparr>"

record crawl_options =
  exclude_paths :: "string list option"
  include_paths :: "string list option"
  max_depth :: int
  ignore_sitemap :: bool
  limit :: int
  allow_backward_links :: bool
  allow_external_links :: bool
  webhook :: "string option"
  scrape_formats :: "string list option"
  scrape_headers :: "dict option"
  scrape_include_tags :: "string list option"
  scrape_exclude_tags :: "string list option"
  scrape_wait_for :: int

definition crawl_defaults :: crawl_options where
  "crawl_defaults =
     \<lparr> exclude_paths = None, include_paths = None, max_depth = 2, ignore_sitemap = True,
       limit = 10, allow_backward_links = False, allow_external_links = False,
       webhook = None, scrape_formats = None, scrape_headers = None,
       scrape_include_tags = None, scrape_exclude_tags = None, scrape_wait_for = 123 \<rparr>"

record map_options =
  search :: "string option"
  map_ignore_sitemap :: bool
  include_subdomains :: bool
  map_limit :: int

definition map_defaults :: map_options where
  "map_defaults =
     \<lparr> search = None, map_ignore_sitemap = True, include_subdomains = False,
       map_limit = 5000 \<rparr>"

text \<open>\<open>if x is not None: payload[k] = x\<close>.\<close>

definition set_if_given :: "string \<Rightarrow> ('a \<Rightarrow> json) \<Rightarrow> 'a option \<Rightarrow> dict \<Rightarrow> dict" where
  "set_if_given k f x payload = (case x of None \<Rightarrow> payload | Some y \<Rightarrow> setitem k (f y) payload)"

text \<open>\<open>if x is not None: payload[k1][k2] = x\<close>.\<close>

definition set_in_if_given ::
  "string \<Rightarrow> string \<Rightarrow> ('a \<Rightarrow> json) \<Rightarrow> 'a option \<Rightarrow> dict \<Rightarrow> failure + dict" where
  "set_in_if_given k1 k2 f x payload =
     (case x of None \<Rightarrow> Inr payload | Some y \<Rightarrow> setitem_in k1 k2 (f y) payload)"


section \<open>sync_client.py\<close>

record FirecrawlClient =
  base_url :: string
  session :: transport

text \<open>\<open>__init__\<close>; the first argument is the transport object the constructor creates.\<close>

definition FirecrawlClient_init :: "transport \<Rightarrow> string \<Rightarrow> failure + FirecrawlClient" where
  "FirecrawlClient_init new_session b =
     (if b = [] then Inl (ValueError ''Base URL must be provided.'')
      else Inr \<lparr> base_url = rstrip ''/'' b, session = new_session \<rparr>)"

subsection \<open>scrape\<close>

definition FirecrawlClient_scrape_payload :: "string \<Rightarrow> scrape_options \<Rightarrow> dict" where
  "FirecrawlClient_scrape_payload url opts =
     (let payload = [(''url'', JStr url),
                     (''formats'', str_list (py_or (formats opts) [''markdown''])),
                     (''waitFor'', JInt (wait_for opts)),
                     (''timeout'', JInt (timeout opts))];
          payload = set_if_given ''includeTags'' str_list (include_tags opts) payload;
          payload = set_if_given ''excludeTags'' str_list (exclude_tags opts) payload;
          payload = set_if_given ''headers'' JObj (headers opts) payload
      in if truthy (extract_schema opts) \<or> truthy (extract_system_prompt opts)
            \<or> truthy (extract_prompt opts)
         then setitem ''extract''
                (JObj [(''schema'', opt_json JObj (extract_schema opts)),
                       (''systemPrompt'', opt_json JStr (extract_system_prompt opts)),
                       (''prompt'', opt_json JStr (extract_prompt opts))])
                payload
         else payload)"

definition FirecrawlClient_scrape_request :: "FirecrawlClient \<Rightarrow> string \<Rightarrow> scrape_options \<Rightarrow> request" where
  "FirecrawlClient_scrape_request self url opts =
     \<lparr> verb = POST, request_url = base_url self @ ''/scrape'',
       json_payload = Some (JObj (FirecrawlClient_scrape_payload url opts)) \<rparr>"

definition FirecrawlClient_scrape ::
  "('u, 'd) pydantic \<Rightarrow> FirecrawlClient \<Rightarrow> string \<Rightarrow> scrape_options \<Rightarrow> failure + 'u ScrapeResult" where
  "FirecrawlClient_scrape P self url opts =
     and_then (session self (FirecrawlClient_scrape_request self url opts)) (\<lambda>resp.
     and_then (check_status resp) (\<lambda>_.
     and_then (resp_json resp) (\<lambda>data.
     and_then (getitem data ''data'') (\<lambda>inner.
       ScrapeResult_validate P inner))))"

subsection \<open>crawl\<close>

definition FirecrawlClient_crawl_payload :: "string \<Rightarrow> crawl_options \<Rightarrow> failure + dict" where
  "FirecrawlClient_crawl_payload url opts =
     (let payload = [(''url'', JStr url),
                     (''maxDepth'', JInt (max_depth opts)),
                     (''ignoreSitemap'', JBool (ignore_sitemap opts)),
                     (''limit'', JInt (limit opts)),
                     (''allowBackwardLinks'', JBool (allow_backward_links opts)),
                     (''allowExternalLinks'', JBool (allow_external_links opts)),
                     (''scrapeOptions'',
                        JObj [(''formats'', str_list (py_or (scrape_formats opts) [''markdown''])),
                              (''waitFor'', JInt (scrape_wait_for opts))])];
          payload = set_if_given ''excludePaths'' str_list (exclude_paths opts) payload;
          payload = set_if_given ''includePaths'' str_list (include_paths opts) payload;
          payload = set_if_given ''webhook'' JStr (webhook opts) payload
      in and_then (set_in_if_given ''scrapeOptions'' ''headers'' JObj
                     (scrape_headers opts) payload) (\<lambda>payload.
         and_then (set_in_if_given ''scrapeOptions'' ''includeTags'' str_list
                     (scrape_include_tags opts) payload) (\<lambda>payload.
         set_in_if_given ''scrapeOptions'' ''excludeTags'' str_list
                     (scrape_exclude_tags opts) payload)))"

definition FirecrawlClient_crawl_request ::
  "FirecrawlClient \<Rightarrow> string \<Rightarrow> crawl_options \<Rightarrow> failure + request" where
  "FirecrawlClient_crawl_request self url opts =
     and_then (FirecrawlClient_crawl_payload url opts) (\<lambda>payload.
       Inr \<lparr> verb = POST, request_url = base_url self @ ''/crawl'',
             json_payload = Some (JObj payload) \<rparr>)"


subsection \<open>get_crawl_status, cancel_crawl\<close>

definition FirecrawlClient_get_crawl_status_request :: "FirecrawlClient \<Rightarrow> string \<Rightarrow> request" where
  "FirecrawlClient_get_crawl_status_request self job =
     \<lparr> verb = GET, request_url = base_url self @ ''/crawl/'' @ job,
       json_payload = None \<rparr>"


definition FirecrawlClient_cancel_crawl_request :: "FirecrawlClient \<Rightarrow> string \<Rightarrow> request" where
  "FirecrawlClient_cancel_crawl_request self job =
     \<lparr> verb = DELETE, request_url = base_url self @ ''/crawl/'' @ job,
       json_payload = None \<rparr>"

text \<open>
  The value returned is whatever the body holds under \<open>success\<close>; the annotation \<open>bool\<close>
  is not enforced.
\<close>

definition FirecrawlClient_cancel_crawl :: "FirecrawlClient \<Rightarrow> string \<Rightarrow> failure + json" where
  "FirecrawlClient_cancel_crawl self job =
     and_then (session self (FirecrawlClient_cancel_crawl_request self job)) (\<lambda>resp.
     and_then (check_status resp) (\<lambda>_.
     and_then (resp_json resp) (\<lambda>data.
       get_default data ''success'' (JBool False))))"

subsection \<open>map\<close>

definition FirecrawlClient_map_payload :: "string \<Rightarrow> map_options \<Rightarrow> dict" where
  "FirecrawlClient_map_payload url opts =
     (let payload = [(''url'', JStr url),
                     (''ignoreSitemap'', JBool (map_ignore_sitemap opts)),
                     (''includeSubdomains'', JBool (include_subdomains opts)),
                     (''limit'', JInt (map_limit opts))]
      in set_if_given ''search'' JStr (search opts) payload)"

definition FirecrawlClient_map_request :: "FirecrawlClient \<Rightarrow> string \<Rightarrow> map_options \<Rightarrow> request" where
  "FirecrawlClient_map_request self url opts =
     \<lparr> verb = POST, request_url = base_url self @ ''/map'',
       json_payload = Some (JObj (FirecrawlClient_map_payload url opts)) \<rparr>"



section \<open>async_client.py\<close>

text \<open>
  The fields of the asynchronous client are \<open>base_url\<close> and \<open>client\<close>; the first is written
  \<open>abase_url\<close> here, since the synchronous client declares \<open>base_url\<close> too.
\<close>

record AsyncFirecrawlClient =
  abase_url :: string
  client :: transport

text \<open>\<open>__init__\<close>; the first argument is the transport object the constructor creates.\<close>

definition AsyncFirecrawlClient_init :: "transport \<Rightarrow> string \<Rightarrow> failure + AsyncFirecrawlClient" where
  "AsyncFirecrawlClient_init new_client b =
     (if b = [] then Inl (ValueError ''Base URL must be provided.'')
      else Inr \<lparr> abase_url = rstrip ''/'' b, client = new_client \<rparr>)"

subsection \<open>scrape\<close>

definition AsyncFirecrawlClient_scrape_payload :: "string \<Rightarrow> scrape_options \<Rightarrow> dict" where
  "AsyncFirecrawlClient_scrape_payload url opts =
     (let payload = [(''url'', JStr url),
                     (''formats'', str_list (py_or (formats opts) [''markdown''])),
                     (''waitFor'', JInt (wait_for opts)),
                     (''timeout'', JInt (timeout opts))];
          payload = set_if_given ''includeTags'' str_list (include_tags opts) payload;
          payload = set_if_given ''excludeTags'' str_list (exclude_tags opts) payload;
          payload = set_if_given ''headers'' JObj (headers opts) payload
      in if truthy (extract_schema opts) \<or> truthy (extract_system_prompt opts)
            \<or> truthy (extract_prompt opts)
         then setitem ''extract''
                (JObj [(''schema'', opt_json JObj (extract_schema opts)),
                       (''systemPrompt'', opt_json JStr (extract_system_prompt opts)),
                       (''prompt'', opt_json JStr (extract_prompt opts))])
                payload
         else payload)"

definition AsyncFirecrawlClient_scrape_request :: "AsyncFirecrawlClient \<Rightarrow> string \<Rightarrow> scrape_options \<Rightarrow> request" where
  "AsyncFirecrawlClient_scrape_request self url opts =
     \<lparr> verb = POST, request_url = abase_url self @ ''/scrape'',
       json_payload = Some (JObj (AsyncFirecrawlClient_scrape_payload url opts)) \<rparr>"

definition AsyncFirecrawlClient_scrape ::
  "('u, 'd) pydantic \<Rightarrow> AsyncFirecrawlClient \<Rightarrow> string \<Rightarrow> scrape_options \<Rightarrow> failure + 'u ScrapeResult" where
  "AsyncFirecrawlClient_scrape P self url opts =
     and_then (client self (AsyncFirecrawlClient_scrape_request self url opts)) (\<lambda>resp.
     and_then (check_status resp) (\<lambda>_.
     and_then (resp_json resp) (\<lambda>data.
     and_then (getitem data ''data'') (\<lambda>inner.
       ScrapeResult_validate P inner))))"

subsection \<open>crawl\<close>

definition AsyncFirecrawlClient_crawl_payload :: "string \<Rightarrow> crawl_options \<Rightarrow> failure + dict" where
  "AsyncFirecrawlClient_crawl_payload url opts =
     (let payload = [(''url'', JStr url),
                     (''maxDepth'', JInt (max_depth opts)),
                     (''ignoreSitemap'', JBool (ignore_sitemap opts)),
                     (''limit'', JInt (limit opts)),
                     (''allowBackwardLinks'', JBool (allow_backward_links opts)),
                     (''allowExternalLinks'', JBool (allow_external_links opts)),
                     (''scrapeOptions'',
                        JObj [(''formats'', str_list (py_or (scrape_formats opts) [''markdown''])),
                              (''waitFor'', JInt (scrape_wait_for opts))])];
          payload = set_if_given ''excludePaths'' str_list (exclude_paths opts) payload;
          payload = set_if_given ''includePaths'' str_list (include_paths opts) payload;
          payload = set_if_given ''webhook'' JStr (webhook opts) payload
      in and_then (set_in_if_given ''scrapeOptions'' ''headers'' JObj
                     (scrape_headers opts) payload) (\<lambda>payload.
         and_then (set_in_if_given ''scrapeOptions'' ''includeTags'' str_list
                     (scrape_include_tags opts) payload) (\<lambda>payload.
         set_in_if_given ''scrapeOptions'' ''excludeTags'' str_list
                     (scrape_exclude_tags opts) payload)))"

definition AsyncFirecrawlClient_crawl_request ::
  "AsyncFirecrawlClient \<Rightarrow> string \<Rightarrow> crawl_options \<Rightarrow> failure + request" where
  "AsyncFirecrawlClient_crawl_request self url opts =
     and_then (AsyncFirecrawlClient_crawl_payload url opts) (\<lambda>payload.
       Inr \<lparr> verb = POST, request_url = abase_url self @ ''/crawl'',
             json_payload = Some (JObj payload) \<rparr>)"


subsection \<open>get_crawl_status, cancel_crawl\<close>

definition AsyncFirecrawlClient_get_crawl_status_request :: "AsyncFirecrawlClient \<Rightarrow> string \<Rightarrow> request" where
  "AsyncFirecrawlClient_get_crawl_status_request self job =
     \<lparr> verb = GET, request_url = abase_url self @ ''/crawl/'' @ job,
       json_payload = None \<rparr>"


definition AsyncFirecrawlClient_cancel_crawl_request :: "AsyncFirecrawlClient \<Rightarrow> string \<Rightarrow> request" where
  "AsyncFirecrawlClient_cancel_crawl_request self job =
     \<lparr> verb = DELETE, request_url = abase_url self @ ''/crawl/'' @ job,
       json_payload = None \<rparr>"

text \<open>
  The value returned is whatever the body holds under \<open>success\<close>; the annotation \<open>bool\<close>
  is not enforced.
\<close>

definition AsyncFirecrawlClient_cancel_crawl :: "AsyncFirecrawlClient \<Rightarrow> string \<Rightarrow> failure + json" where
  "AsyncFirecrawlClient_cancel_crawl self job =
     and_then (client self (AsyncFirecrawlClient_cancel_crawl_request self job)) (\<lambda>resp.
     and_then (check_status resp) (\<lambda>_.
     and_then (resp_json resp) (\<lambda>data.
       get_default data ''success'' (JBool False))))"

subsection \<open>map\<close>

definition AsyncFirecrawlClient_map_payload :: "string \<Rightarrow> map_options \<Rightarrow> dict" where
  "AsyncFirecrawlClient_map_payload url opts =
     (let payload = [(''url'', JStr url),
                     (''ignoreSitemap'', JBool (map_ignore_sitemap opts)),
                     (''includeSubdomains'', JBool (include_subdomains opts)),
                     (''limit'', JInt (map_limit opts))]
      in set_if_given ''search'' JStr (search opts) payload)"

definition AsyncFirecrawlClient_map_request :: "AsyncFirecrawlClient \<Rightarrow> string \<Rightarrow> map_options \<Rightarrow> request" where
  "AsyncFirecrawlClient_map_request self url opts =
     \<lparr> verb = POST, request_url = abase_url self @ ''/map'',
       json_payload = Some (JObj (AsyncFirecrawlClient_map_payload url opts)) \<rparr>"


section \<open>Vocabulary of the properties\<close>

text \<open>
  The value found in a JSON document by following a path of keys through nested objects,
  as in \<open>payload["scrapeOptions"]["headers"]\<close>; \<open>None\<close> when a key on the way is absent.
\<close>

fun getpath :: "json \<Rightarrow> string list \<Rightarrow> json option" where
  "getpath j [] = Some j"
| "getpath (JObj d) (k # ks) = (case map_of d k of None \<Rightarrow> None | Some v \<Rightarrow> getpath v ks)"
| "getpath _ (k # ks) = None"

text \<open>
  Closed forms of the payloads.  An argument that is not \<open>None\<close> contributes one entry,
  \<open>None\<close> contributes nothing; the payload of an operation is its fixed entries followed
  by the contributions of its optional arguments, in the order of the assignments.
  These are not translations of the source: lemmas below prove that the payload
  functions of both clients compute them.
\<close>

definition given :: "string \<Rightarrow> ('a \<Rightarrow> json) \<Rightarrow> 'a option \<Rightarrow> dict" where
  "given k f x = (case x of None \<Rightarrow> [] | Some y \<Rightarrow> [(k, f y)])"

definition extract_entry :: "scrape_options \<Rightarrow> dict" where
  "extract_entry opts =
     (if truthy (extract_schema opts) \<or> truthy (extract_system_prompt opts)
         \<or> truthy (extract_prompt opts)
      then [(''extract'',
             JObj [(''schema'', opt_json JObj (extract_schema opts)),
                   (''systemPrompt'', opt_json JStr (extract_system_prompt opts)),
                   (''prompt'', opt_json JStr (extract_prompt opts))])]
      else [])"

definition scrape_shape :: "string \<Rightarrow> scrape_options \<Rightarrow> dict" where
  "scrape_shape url opts =
     [(''url'', JStr url),
      (''formats'', str_list (py_or (formats opts) [''markdown''])),
      (''waitFor'', JInt (wait_for opts)),
      (''timeout'', JInt (timeout opts))]
     @ given ''includeTags'' str_list (include_tags opts)
     @ given ''excludeTags'' str_list (exclude_tags opts)
     @ given ''headers'' JObj (headers opts)
     @ extract_entry opts"

definition scrapeOptions_shape :: "crawl_options \<Rightarrow> dict" where
  "scrapeOptions_shape opts =
     [(''formats'', str_list (py_or (scrape_formats opts) [''markdown''])),
      (''waitFor'', JInt (scrape_wait_for opts))]
     @ given ''headers'' JObj (scrape_headers opts)
     @ given ''includeTags'' str_list (scrape_include_tags opts)
     @ given ''excludeTags'' str_list (scrape_exclude_tags opts)"

definition crawl_shape :: "string \<Rightarrow> crawl_options \<Rightarrow> dict" where
  "crawl_shape url opts =
     [(''url'', JStr url),
      (''maxDepth'', JInt (max_depth opts)),
      (''ignoreSitemap'', JBool (ignore_sitemap opts)),
      (''limit'', JInt (limit opts)),
      (''allowBackwardLinks'', JBool (allow_backward_links opts)),
      (''allowExternalLinks'', JBool (allow_external_links opts)),
      (''scrapeOptions'', JObj (scrapeOptions_shape opts))]
     @ given ''excludePaths'' str_list (exclude_paths opts)
     @ given ''includePaths'' str_list (include_paths opts)
     @ given ''webhook'' JStr (webhook opts)"

definition map_shape :: "string \<Rightarrow> map_options \<Rightarrow> dict" where
  "map_shape url opts =
     [(''url'', JStr url),
      (''ignoreSitemap'', JBool (map_ignore_sitemap opts)),
      (''includeSubdomains'', JBool (include_subdomains opts)),
      (''limit'', JInt (map_limit opts))]
     @ given ''search'' JStr (search opts)"

text \<open>
  The condition under which \<open>scrape\<close> writes \<open>extract\<close>, spelled out: one of the three
  arguments is neither \<open>None\<close> nor empty.
\<close>

definition extract_wanted :: "scrape_options \<Rightarrow> bool" where
  "extract_wanted opts =
     (extract_schema opts \<notin> {None, Some []} \<or> extract_system_prompt opts \<notin> {None, Some ''''}
        \<or> extract_prompt opts \<notin> {None, Some ''''})"

text \<open>
  What it means for a payload to leave out the unset arguments of its operation: no key
  for an argument that is \<open>None\<close>, and no entry whose value is \<open>null\<close>.  For \<open>crawl\<close> the same
  is asked of the nested \<open>scrapeOptions\<close> object.
\<close>

definition scrape_omits_unset :: "scrape_options \<Rightarrow> dict \<Rightarrow> bool" where
  "scrape_omits_unset opts payload =
     ((include_tags opts = None \<longrightarrow> ''includeTags'' \<notin> set (keys payload)) \<and>
      (exclude_tags opts = None \<longrightarrow> ''excludeTags'' \<notin> set (keys payload)) \<and>
      (headers opts = None \<longrightarrow> ''headers'' \<notin> set (keys payload)) \<and>
      (extract_schema opts = None \<and> extract_system_prompt opts = None
         \<and> extract_prompt opts = None \<longrightarrow> ''extract'' \<notin> set (keys payload)) \<and>
      JNull \<notin> snd ` set payload)"

definition crawl_omits_unset :: "crawl_options \<Rightarrow> dict \<Rightarrow> bool" where
  "crawl_omits_unset opts payload =
     ((exclude_paths opts = None \<longrightarrow> ''excludePaths'' \<notin> set (keys payload)) \<and>
      (include_paths opts = None \<longrightarrow> ''includePaths'' \<notin> set (keys payload)) \<and>
      (webhook opts = None \<longrightarrow> ''webhook'' \<notin> set (keys payload)) \<and>
      JNull \<notin> snd ` set payload \<and>
      (case map_of payload ''scrapeOptions'' of
         Some (JObj inner) \<Rightarrow>
           (scrape_headers opts = None \<longrightarrow> ''headers'' \<notin> set (keys inner)) \<and>
           (scrape_include_tags opts = None \<longrightarrow> ''includeTags'' \<notin> set (keys inner)) \<and>
           (scrape_exclude_tags opts = None \<longrightarrow> ''excludeTags'' \<notin> set (keys inner)) \<and>
           JNull \<notin> snd ` set inner
       | _ \<Rightarrow> False))"

definition map_omits_unset :: "map_options \<Rightarrow> dict \<Rightarrow> bool" where
  "map_omits_unset opts payload =
     ((search opts = None \<longrightarrow> ''search'' \<notin> set (keys payload)) \<and>
      JNull \<notin> snd ` set payload)"

text \<open>
  What \<open>scrapeOptions\<close> holds: \<open>formats\<close> (the argument, or the default when the argument
  is falsy), \<open>waitFor\<close>, and each of \<open>headers\<close>, \<open>includeTags\<close>, \<open>excludeTags\<close> exactly when
  its argument is given.
\<close>

definition scrapeOptions_carries :: "crawl_options \<Rightarrow> dict \<Rightarrow> bool" where
  "scrapeOptions_carries opts payload =
     (getpath (JObj payload) [''scrapeOptions'', ''formats'']
        = Some (str_list (py_or (scrape_formats opts) [''markdown''])) \<and>
      getpath (JObj payload) [''scrapeOptions'', ''waitFor'']
        = Some (JInt (scrape_wait_for opts)) \<and>
      getpath (JObj payload) [''scrapeOptions'', ''headers'']
        = map_option JObj (scrape_headers opts) \<and>
      getpath (JObj payload) [''scrapeOptions'', ''includeTags'']
        = map_option str_list (scrape_include_tags opts) \<and>
      getpath (JObj payload) [''scrapeOptions'', ''excludeTags'']
        = map_option str_list (scrape_exclude_tags opts))"

text \<open>
  Test doubles for concrete runs: a validation library that takes any string as a URL
  and coerces nothing, and a response that passes the status check and decodes to the
  given body.
\<close>

definition example_pydantic :: "(string, unit) pydantic" where
  "example_pydantic =
     \<lparr> lax_int = (\<lambda>j. None), lax_bool = (\<lambda>j. None),
       HttpUrl = (\<lambda>j. case j of JStr s \<Rightarrow> Some s | _ \<Rightarrow> None),
       datetime = (\<lambda>j. None) \<rparr>"

definition ok_response :: "json \<Rightarrow> response" where
  "ok_response body = \<lparr> raise_for_status = None, resp_json = Inr body \<rparr>"


section \<open>Dictionary lemmas\<close>

lemma setitem_fresh: "k \<notin> fst ` set d \<Longrightarrow> setitem k v d = d @ [(k, v)]"
  by (induction d) auto

lemma setitem_replace:
  "k \<notin> fst ` set pre \<Longrightarrow> setitem k v (pre @ (k, v0) # post) = pre @ (k, v) # post"
  by (induction pre) auto

lemma map_of_middle:
  "k \<notin> fst ` set pre \<Longrightarrow> map_of (pre @ (k, v) # post) k = Some v"
  by (induction pre) auto

lemma map_of_insert_other:
  "f \<noteq> k \<Longrightarrow> map_of (d1 @ (k, v) # d2) f = map_of (d1 @ d2) f"
  by (induction d1) auto

lemma keys_append: "keys (a @ b) = keys a @ keys b"
  by (simp add: keys_def)

lemma keys_Cons: "keys ((k, v) # d) = k # keys d"
  by (simp add: keys_def)

lemma keys_Nil: "keys [] = []"
  by (simp add: keys_def)

lemma truthy_iff: "truthy x \<longleftrightarrow> x \<notin> {None, Some []}"
  by (cases x) (simp_all add: truthy_def)

lemma keys_given: "set (keys (given k f x)) = (if x = None then {} else {k})"
  by (cases x) (simp_all add: given_def keys_def)

lemma map_of_given: "map_of (given k f x) k' = (if k' = k then map_option f x else None)"
  by (cases x) (simp_all add: given_def)

lemma fst_given: "fst ` set (given k f x) \<subseteq> {k}"
  by (cases x) (simp_all add: given_def)

lemma no_null_given:
  assumes "\<And>y. f y \<noteq> JNull"
  shows "JNull \<notin> snd ` set (given k f x)"
proof (cases x)
  case None
  then show ?thesis by (simp add: given_def)
next
  case (Some y)
  with assms [of y] show ?thesis by (auto simp: given_def)
qed

lemma set_if_given_fresh:
  "k \<notin> fst ` set d \<Longrightarrow> set_if_given k f x d = d @ given k f x"
  by (simp add: set_if_given_def given_def setitem_fresh split: option.split)

lemma set_in_if_given_fresh:
  assumes "k1 \<notin> fst ` set pre" and "k2 \<notin> fst ` set inner"
  shows "set_in_if_given k1 k2 f x (pre @ (k1, JObj inner) # post) =
           Inr (pre @ (k1, JObj (inner @ given k2 f x)) # post)"
proof -
  have hit: "map_of (pre @ (k1, JObj inner) # post) k1 = Some (JObj inner)"
    by (rule map_of_middle [OF assms(1)])
  show ?thesis
    by (cases x)
      (simp_all add: set_in_if_given_def setitem_in_def hit setitem_replace [OF assms(1)]
         setitem_fresh [OF assms(2)] given_def del: map_of_append)
qed


section \<open>The payloads in closed form\<close>

lemma sync_scrape_payload_shape:
  "FirecrawlClient_scrape_payload url opts = scrape_shape url opts"
  by (simp add: FirecrawlClient_scrape_payload_def Let_def extract_entry_def scrape_shape_def
        set_if_given_def given_def split: option.split)

lemma async_scrape_payload_shape:
  "AsyncFirecrawlClient_scrape_payload url opts = scrape_shape url opts"
  by (simp add: AsyncFirecrawlClient_scrape_payload_def Let_def extract_entry_def scrape_shape_def
        set_if_given_def given_def split: option.split)

text \<open>
  The body of \<open>crawl\<close>, step by step: three top-level assignments append to the payload,
  three nested assignments append to the inner dict, and \<open>scrapeOptions\<close> keeps its place.
\<close>

lemma crawl_steps:
  fixes pre :: dict
  assumes pre: "pre = [(''url'', u), (''maxDepth'', a), (''ignoreSitemap'', b), (''limit'', c),
                       (''allowBackwardLinks'', e), (''allowExternalLinks'', g)]"
      and inner: "inner = [(''formats'', fm), (''waitFor'', w)]"
  shows "(let payload = pre @ [(''scrapeOptions'', JObj inner)];
              payload = set_if_given ''excludePaths'' str_list xp payload;
              payload = set_if_given ''includePaths'' str_list ip payload;
              payload = set_if_given ''webhook'' JStr wh payload
          in and_then (set_in_if_given ''scrapeOptions'' ''headers'' JObj sh payload) (\<lambda>payload.
             and_then (set_in_if_given ''scrapeOptions'' ''includeTags'' str_list si payload) (\<lambda>payload.
             set_in_if_given ''scrapeOptions'' ''excludeTags'' str_list se payload)))
         = Inr (pre @ (''scrapeOptions'',
                        JObj (inner @ given ''headers'' JObj sh @ given ''includeTags'' str_list si
                                @ given ''excludeTags'' str_list se))
                  # (given ''excludePaths'' str_list xp @ given ''includePaths'' str_list ip
                       @ given ''webhook'' JStr wh))"
proof -
  let ?p0 = "pre @ [(''scrapeOptions'', JObj inner)]"
  let ?g1 = "given ''excludePaths'' str_list xp"
  let ?g2 = "given ''includePaths'' str_list ip"
  let ?g3 = "given ''webhook'' JStr wh"
  let ?h1 = "given ''headers'' JObj sh"
  let ?h2 = "given ''includeTags'' str_list si"
  have k0: "''scrapeOptions'' \<notin> fst ` set pre"
    by (simp add: pre)
  have s1: "set_if_given ''excludePaths'' str_list xp ?p0 = ?p0 @ ?g1"
    by (rule set_if_given_fresh) (simp add: pre)
  have f2: "''includePaths'' \<notin> fst ` set (?p0 @ ?g1)"
    using fst_given [of "''excludePaths''" str_list xp] by (auto simp: pre)
  have s2: "set_if_given ''includePaths'' str_list ip (?p0 @ ?g1) = (?p0 @ ?g1) @ ?g2"
    by (rule set_if_given_fresh [OF f2])
  have f3: "''webhook'' \<notin> fst ` set ((?p0 @ ?g1) @ ?g2)"
    using fst_given [of "''excludePaths''" str_list xp]
          fst_given [of "''includePaths''" str_list ip] by (auto simp: pre)
  have s3: "set_if_given ''webhook'' JStr wh ((?p0 @ ?g1) @ ?g2) = ((?p0 @ ?g1) @ ?g2) @ ?g3"
    by (rule set_if_given_fresh [OF f3])
  have top: "((?p0 @ ?g1) @ ?g2) @ ?g3 = pre @ (''scrapeOptions'', JObj inner) # (?g1 @ ?g2 @ ?g3)"
    by simp
  have i1: "''headers'' \<notin> fst ` set inner"
    by (simp add: inner)
  have i2: "''includeTags'' \<notin> fst ` set (inner @ ?h1)"
    using fst_given [of "''headers''" JObj sh] by (auto simp: inner)
  have i3: "''excludeTags'' \<notin> fst ` set (inner @ ?h1 @ ?h2)"
    using fst_given [of "''headers''" JObj sh]
          fst_given [of "''includeTags''" str_list si] by (auto simp: inner)
  show ?thesis
    unfolding Let_def s1 s2 s3 top
    by (simp only: set_in_if_given_fresh [OF k0 i1] set_in_if_given_fresh [OF k0 i2]
          set_in_if_given_fresh [OF k0 i3] and_then_def sum.case append_assoc)
qed

lemma sync_crawl_payload_shape:
  "FirecrawlClient_crawl_payload url opts = Inr (crawl_shape url opts)"
  unfolding FirecrawlClient_crawl_payload_def crawl_shape_def scrapeOptions_shape_def
  using crawl_steps [OF refl refl] by simp

lemma async_crawl_payload_shape:
  "AsyncFirecrawlClient_crawl_payload url opts = Inr (crawl_shape url opts)"
  unfolding AsyncFirecrawlClient_crawl_payload_def crawl_shape_def scrapeOptions_shape_def
  using crawl_steps [OF refl refl] by simp

lemma sync_map_payload_shape:
  "FirecrawlClient_map_payload url opts = map_shape url opts"
  by (simp add: FirecrawlClient_map_payload_def Let_def map_shape_def
        set_if_given_def given_def split: option.split)

lemma async_map_payload_shape:
  "AsyncFirecrawlClient_map_payload url opts = map_shape url opts"
  by (simp add: AsyncFirecrawlClient_map_payload_def Let_def map_shape_def
        set_if_given_def given_def split: option.split)

lemma keys_extract_entry:
  "set (keys (extract_entry opts)) = (if extract_wanted opts then {''extract''} else {})"
  by (simp add: extract_entry_def extract_wanted_def truthy_iff keys_Cons keys_Nil)

lemma values_extract_entry: "JNull \<notin> snd ` set (extract_entry opts)"
  by (auto simp: extract_entry_def)

lemma keys_scrape_shape:
  "set (keys (scrape_shape url opts)) =
     {''url'', ''formats'', ''waitFor'', ''timeout''}
     \<union> (if include_tags opts = None then {} else {''includeTags''})
     \<union> (if exclude_tags opts = None then {} else {''excludeTags''})
     \<union> (if headers opts = None then {} else {''headers''})
     \<union> (if extract_wanted opts then {''extract''} else {})"
  unfolding scrape_shape_def keys_append keys_Cons keys_Nil set_append keys_given
    keys_extract_entry
  by auto

lemma values_scrape_shape: "JNull \<notin> snd ` set (scrape_shape url opts)"
  by (simp add: scrape_shape_def image_Un no_null_given values_extract_entry str_list_def)

lemma keys_scrapeOptions_shape:
  "set (keys (scrapeOptions_shape opts)) =
     {''formats'', ''waitFor''}
     \<union> (if scrape_headers opts = None then {} else {''headers''})
     \<union> (if scrape_include_tags opts = None then {} else {''includeTags''})
     \<union> (if scrape_exclude_tags opts = None then {} else {''excludeTags''})"
  unfolding scrapeOptions_shape_def keys_append keys_Cons keys_Nil set_append keys_given
  by auto

lemma values_scrapeOptions_shape: "JNull \<notin> snd ` set (scrapeOptions_shape opts)"
  by (simp add: scrapeOptions_shape_def image_Un no_null_given str_list_def)

lemma keys_crawl_shape:
  "set (keys (crawl_shape url opts)) =
     {''url'', ''maxDepth'', ''ignoreSitemap'', ''limit'', ''allowBackwardLinks'',
      ''allowExternalLinks'', ''scrapeOptions''}
     \<union> (if exclude_paths opts = None then {} else {''excludePaths''})
     \<union> (if include_paths opts = None then {} else {''includePaths''})
     \<union> (if webhook opts = None then {} else {''webhook''})"
  unfolding crawl_shape_def keys_append keys_Cons keys_Nil set_append keys_given
  by auto

lemma values_crawl_shape: "JNull \<notin> snd ` set (crawl_shape url opts)"
  by (simp add: crawl_shape_def image_Un no_null_given str_list_def)

lemma scrapeOptions_of_crawl_shape:
  "map_of (crawl_shape url opts) ''scrapeOptions'' = Some (JObj (scrapeOptions_shape opts))"
  by (simp add: crawl_shape_def)

lemma getpath_crawl_shape:
  "getpath (JObj (crawl_shape url opts)) [''scrapeOptions'', k]
     = map_of (scrapeOptions_shape opts) k"
  by (simp add: scrapeOptions_of_crawl_shape split: option.split)

lemma keys_map_shape:
  "set (keys (map_shape url opts)) =
     {''url'', ''ignoreSitemap'', ''includeSubdomains'', ''limit''}
     \<union> (if search opts = None then {} else {''search''})"
  unfolding map_shape_def keys_append keys_Cons keys_Nil set_append keys_given
  by auto

lemma values_map_shape: "JNull \<notin> snd ` set (map_shape url opts)"
  by (simp add: map_shape_def image_Un no_null_given)

lemma scrape_shape_omits_unset: "scrape_omits_unset opts (scrape_shape url opts)"
  unfolding scrape_omits_unset_def keys_scrape_shape
  using values_scrape_shape [of url opts]
  by (simp add: extract_wanted_def)

lemma crawl_shape_omits_unset: "crawl_omits_unset opts (crawl_shape url opts)"
  unfolding crawl_omits_unset_def scrapeOptions_of_crawl_shape keys_crawl_shape
  using values_crawl_shape [of url opts] values_scrapeOptions_shape [of opts]
  by (simp add: keys_scrapeOptions_shape)

lemma map_shape_omits_unset: "map_omits_unset opts (map_shape url opts)"
  unfolding map_omits_unset_def keys_map_shape
  using values_map_shape [of url opts]
  by simp

lemma crawl_shape_carries: "scrapeOptions_carries opts (crawl_shape url opts)"
  unfolding scrapeOptions_carries_def getpath_crawl_shape
  by (simp add: scrapeOptions_shape_def map_add_def map_of_given split: option.split)

lemma rstrip_slash_appended: "rstrip ''/'' (b @ ''/'') = rstrip ''/'' b"
  by (simp add: rstrip_def)

lemma Metadata_validate_lookups:
  assumes same: "\<And>f. f \<in> set Metadata_fields \<Longrightarrow> map_of d' f = map_of d f"
  shows "Metadata_validate P (JObj d') =
           map_sum id (\<lambda>m. m \<lparr> pydantic_extra := filter (\<lambda>kv. fst kv \<notin> set Metadata_fields) d' \<rparr>)
             (Metadata_validate P (JObj d))"
proof -
  have o: "\<And>val f. f \<in> set Metadata_fields \<Longrightarrow> optional_field val d' f = optional_field val d f"
    by (simp add: optional_field_def same)
  have r: "\<And>val f. f \<in> set Metadata_fields \<Longrightarrow> required_field val d' f = required_field val d f"
    by (simp add: required_field_def same)
  have o': "optional_field validate_str d' ''title'' = optional_field validate_str d ''title''"
    "optional_field validate_str d' ''description'' = optional_field validate_str d ''description''"
    "optional_field validate_str d' ''language'' = optional_field validate_str d ''language''"
    "optional_field validate_str d' ''error'' = optional_field validate_str d ''error''"
    by (simp_all add: o Metadata_fields_def)
  have r': "required_field (validate_url P) d' ''sourceURL'' = required_field (validate_url P) d ''sourceURL''"
    "required_field (validate_int P) d' ''statusCode'' = required_field (validate_int P) d ''statusCode''"
    by (simp_all add: r Metadata_fields_def)
  show ?thesis
    unfolding Metadata_validate_def json.case o' r'
    by (simp add: and_then_def split: sum.split)
qed

lemma Metadata_validate_extra:
  "Metadata_validate P (JObj d) = Inr m \<Longrightarrow>
     pydantic_extra m = filter (\<lambda>kv. fst kv \<notin> set Metadata_fields) d"
  unfolding Metadata_validate_def json.case
  by (auto simp: and_then_def split: sum.splits)


section \<open>Unset optional parameters (C1)\<close>

text \<open>
  C1, as the code has it.  For every operation of either client and every choice of
  arguments: an optional parameter that is left unset adds no key at the top level of
  the payload and no key to the \<open>scrapeOptions\<close> object of \<open>crawl\<close>; no value at the top
  level or in \<open>scrapeOptions\<close> is \<open>null\<close>; \<open>extract\<close> is absent when the three extract
  parameters are all unset; \<open>get_crawl_status\<close> and \<open>cancel_crawl\<close> send no payload at all.
  The entries inside the \<open>extract\<close> object are not part of the statement.
\<close>

theorem unset_options_are_omitted:
  "scrape_omits_unset so (FirecrawlClient_scrape_payload u so) \<and>
   scrape_omits_unset so (AsyncFirecrawlClient_scrape_payload u so) \<and>
   (\<exists>p. FirecrawlClient_crawl_payload u co = Inr p \<and> crawl_omits_unset co p) \<and>
   (\<exists>p. AsyncFirecrawlClient_crawl_payload u co = Inr p \<and> crawl_omits_unset co p) \<and>
   map_omits_unset mo (FirecrawlClient_map_payload u mo) \<and>
   map_omits_unset mo (AsyncFirecrawlClient_map_payload u mo) \<and>
   json_payload (FirecrawlClient_get_crawl_status_request c j) = None \<and>
   json_payload (FirecrawlClient_cancel_crawl_request c j) = None \<and>
   json_payload (AsyncFirecrawlClient_get_crawl_status_request a j) = None \<and>
   json_payload (AsyncFirecrawlClient_cancel_crawl_request a j) = None"
  by (simp add: sync_scrape_payload_shape async_scrape_payload_shape
        sync_crawl_payload_shape async_crawl_payload_shape
        sync_map_payload_shape async_map_payload_shape
        scrape_shape_omits_unset crawl_shape_omits_unset map_shape_omits_unset
        FirecrawlClient_get_crawl_status_request_def FirecrawlClient_cancel_crawl_request_def
        AsyncFirecrawlClient_get_crawl_status_request_def
        AsyncFirecrawlClient_cancel_crawl_request_def)

text \<open>The theorem at the default arguments of \<open>scrape\<close>, \<open>crawl\<close> and \<open>map\<close>.\<close>

theorem unset_options_are_omitted_witness:
  "''includeTags'' \<notin> set (keys (FirecrawlClient_scrape_payload ''https://example.com'' scrape_defaults)) \<and>
   ''extract'' \<notin> set (keys (AsyncFirecrawlClient_scrape_payload ''https://example.com'' scrape_defaults)) \<and>
   JNull \<notin> snd ` set (FirecrawlClient_scrape_payload ''https://example.com'' scrape_defaults) \<and>
   (\<exists>p. FirecrawlClient_crawl_payload ''https://example.com'' crawl_defaults = Inr p \<and>
        ''webhook'' \<notin> set (keys p) \<and> JNull \<notin> snd ` set p) \<and>
   ''search'' \<notin> set (keys (FirecrawlClient_map_payload ''https://example.com'' map_defaults))"
proof -
  let ?u = "''https://example.com''"
  note t = unset_options_are_omitted [of scrape_defaults ?u crawl_defaults map_defaults]
  have s1: "scrape_omits_unset scrape_defaults (FirecrawlClient_scrape_payload ?u scrape_defaults)"
    using t by blast
  have s2: "scrape_omits_unset scrape_defaults (AsyncFirecrawlClient_scrape_payload ?u scrape_defaults)"
    using t by blast
  obtain p where p: "FirecrawlClient_crawl_payload ?u crawl_defaults = Inr p"
      and c: "crawl_omits_unset crawl_defaults p"
    using t by blast
  have m: "map_omits_unset map_defaults (FirecrawlClient_map_payload ?u map_defaults)"
    using t by blast
  have 1: "''includeTags'' \<notin> set (keys (FirecrawlClient_scrape_payload ?u scrape_defaults))"
    and 3: "JNull \<notin> snd ` set (FirecrawlClient_scrape_payload ?u scrape_defaults)"
    using s1 by (simp_all add: scrape_omits_unset_def scrape_defaults_def)
  have 2: "''extract'' \<notin> set (keys (AsyncFirecrawlClient_scrape_payload ?u scrape_defaults))"
    using s2 by (simp add: scrape_omits_unset_def scrape_defaults_def)
  have 4: "''webhook'' \<notin> set (keys p) \<and> JNull \<notin> snd ` set p"
    using c by (simp add: crawl_omits_unset_def crawl_defaults_def)
  have 5: "''search'' \<notin> set (keys (FirecrawlClient_map_payload ?u map_defaults))"
    using m by (simp add: map_omits_unset_def map_defaults_def)
  show ?thesis
    using 1 2 3 4 5 p by blast
qed

text \<open>
  C1 as stated fails.  With \<open>extract_prompt\<close> given and \<open>extract_system_prompt\<close> unset,
  the payload of \<open>scrape\<close> holds the key \<open>systemPrompt\<close> under \<open>extract\<close>, with a \<open>null\<close> value.
\<close>

theorem extract_writes_null_for_unset:
  "extract_system_prompt (scrape_defaults \<lparr> extract_prompt := Some ''Summarise'' \<rparr>) = None \<and>
   getpath (JObj (FirecrawlClient_scrape_payload ''https://example.com''
                   (scrape_defaults \<lparr> extract_prompt := Some ''Summarise'' \<rparr>)))
     [''extract'', ''systemPrompt''] = Some JNull \<and>
   getpath (JObj (AsyncFirecrawlClient_scrape_payload ''https://example.com''
                   (scrape_defaults \<lparr> extract_prompt := Some ''Summarise'' \<rparr>)))
     [''extract'', ''systemPrompt''] = Some JNull"
  by (simp add: FirecrawlClient_scrape_payload_def AsyncFirecrawlClient_scrape_payload_def
        scrape_defaults_def set_if_given_def truthy_def opt_json_def py_or_def str_list_def)


section \<open>The default call of scrape (C2)\<close>

text \<open>
  C2.  \<open>scrape("https://example.com")\<close> with no other argument sends exactly the body
  \<open>{"url": "https://example.com", "formats": ["markdown"], "waitFor": 0, "timeout": 30000}\<close>,
  and when the server answers with a response that passes the status check and decodes
  to \<open>{"data": {"markdown": "# Hi", "metadata": {"sourceURL": "https://example.com",
  "statusCode": 200}}}\<close>, the call returns a \<open>ScrapeResult\<close> whose \<open>markdown\<close> is \<open>"# Hi"\<close>.
  This holds for both clients; the only assumption on the validation library is that it
  accepts \<open>"https://example.com"\<close> as a URL.
\<close>

theorem scrape_example:
  assumes url: "HttpUrl P (JStr ''https://example.com'') = Some w"
    and ok: "raise_for_status resp = None"
    and body: "resp_json resp =
        Inr (JObj [(''data'',
               JObj [(''markdown'', JStr ''# Hi''),
                     (''metadata'', JObj [(''sourceURL'', JStr ''https://example.com''),
                                          (''statusCode'', JInt 200)])])])"
    and s: "session c (FirecrawlClient_scrape_request c ''https://example.com'' scrape_defaults)
              = Inr resp"
    and a: "client a (AsyncFirecrawlClient_scrape_request a ''https://example.com'' scrape_defaults)
              = Inr resp"
  shows "json_payload (FirecrawlClient_scrape_request c ''https://example.com'' scrape_defaults)
           = Some (JObj [(''url'', JStr ''https://example.com''),
                         (''formats'', JArr [JStr ''markdown'']),
                         (''waitFor'', JInt 0), (''timeout'', JInt 30000)]) \<and>
         json_payload (AsyncFirecrawlClient_scrape_request a ''https://example.com'' scrape_defaults)
           = Some (JObj [(''url'', JStr ''https://example.com''),
                         (''formats'', JArr [JStr ''markdown'']),
                         (''waitFor'', JInt 0), (''timeout'', JInt 30000)]) \<and>
         (\<exists>r. FirecrawlClient_scrape P c ''https://example.com'' scrape_defaults = Inr r
              \<and> markdown r = Some ''# Hi'') \<and>
         (\<exists>r. AsyncFirecrawlClient_scrape P a ''https://example.com'' scrape_defaults = Inr r
              \<and> markdown r = Some ''# Hi'')"
proof -
  let ?meta = "JObj [(''sourceURL'', JStr ''https://example.com''), (''statusCode'', JInt 200)]"
  let ?inner = "JObj [(''markdown'', JStr ''# Hi''), (''metadata'', ?meta)]"
  have p1: "FirecrawlClient_scrape_payload ''https://example.com'' scrape_defaults
              = [(''url'', JStr ''https://example.com''), (''formats'', JArr [JStr ''markdown'']),
                 (''waitFor'', JInt 0), (''timeout'', JInt 30000)]"
    by (simp add: FirecrawlClient_scrape_payload_def scrape_defaults_def set_if_given_def
          truthy_def py_or_def str_list_def)
  have p2: "AsyncFirecrawlClient_scrape_payload ''https://example.com'' scrape_defaults
              = [(''url'', JStr ''https://example.com''), (''formats'', JArr [JStr ''markdown'']),
                 (''waitFor'', JInt 0), (''timeout'', JInt 30000)]"
    by (simp add: AsyncFirecrawlClient_scrape_payload_def scrape_defaults_def set_if_given_def
          truthy_def py_or_def str_list_def)
  have m: "Metadata_validate P ?meta =
             Inr \<lparr> title = None, description = None, language = None, sourceURL = w,
                   statusCode = 200, error = None, pydantic_extra = [] \<rparr>"
    by (simp add: Metadata_validate_def optional_field_def required_field_def and_then_def
          validate_url_def validate_int_def from_option_def url Metadata_fields_def)
  have v: "\<exists>r. ScrapeResult_validate P ?inner = Inr r \<and> markdown r = Some ''# Hi''"
    by (simp add: ScrapeResult_validate_def optional_field_def required_field_def and_then_def
          validate_str_def m)
  have g: "getitem (JObj [(''data'', ?inner)]) ''data'' = Inr ?inner"
    by (simp add: getitem_def)
  have r1: "FirecrawlClient_scrape P c ''https://example.com'' scrape_defaults
              = ScrapeResult_validate P ?inner"
    by (simp add: FirecrawlClient_scrape_def s and_then_def check_status_def ok body g)
  have r2: "AsyncFirecrawlClient_scrape P a ''https://example.com'' scrape_defaults
              = ScrapeResult_validate P ?inner"
    by (simp add: AsyncFirecrawlClient_scrape_def a and_then_def check_status_def ok body g)
  show ?thesis
    unfolding r1 r2 using v
    by (simp add: FirecrawlClient_scrape_request_def AsyncFirecrawlClient_scrape_request_def p1 p2)
qed

text \<open>The theorem run against the test doubles.\<close>

theorem scrape_example_witness:
  "json_payload (FirecrawlClient_scrape_request
       \<lparr> base_url = ''https://api.firecrawl.dev/v1'',
         session = always (ok_response
           (JObj [(''data'',
               JObj [(''markdown'', JStr ''# Hi''),
                     (''metadata'', JObj [(''sourceURL'', JStr ''https://example.com''),
                                          (''statusCode'', JInt 200)])])])) \<rparr>
       ''https://example.com'' scrape_defaults)
     = Some (JObj [(''url'', JStr ''https://example.com''),
                   (''formats'', JArr [JStr ''markdown'']),
                   (''waitFor'', JInt 0), (''timeout'', JInt 30000)]) \<and>
   (\<exists>r. FirecrawlClient_scrape example_pydantic
       \<lparr> base_url = ''https://api.firecrawl.dev/v1'',
         session = always (ok_response
           (JObj [(''data'',
               JObj [(''markdown'', JStr ''# Hi''),
                     (''metadata'', JObj [(''sourceURL'', JStr ''https://example.com''),
                                          (''statusCode'', JInt 200)])])])) \<rparr>
       ''https://example.com'' scrape_defaults = Inr r \<and> markdown r = Some ''# Hi'')"
proof -
  let ?body = "JObj [(''data'',
               JObj [(''markdown'', JStr ''# Hi''),
                     (''metadata'', JObj [(''sourceURL'', JStr ''https://example.com''),
                                          (''statusCode'', JInt 200)])])]"
  let ?c = "\<lparr> base_url = ''https://api.firecrawl.dev/v1'', session = always (ok_response ?body) \<rparr>"
  let ?a = "\<lparr> abase_url = ''https://api.firecrawl.dev/v1'', client = always (ok_response ?body) \<rparr>"
  have 1: "HttpUrl example_pydantic (JStr ''https://example.com'') = Some ''https://example.com''"
    by (simp add: example_pydantic_def)
  have 2: "raise_for_status (ok_response ?body) = None"
    by (simp add: ok_response_def)
  have 3: "resp_json (ok_response ?body) = Inr ?body"
    by (simp add: ok_response_def)
  have 4: "session ?c (FirecrawlClient_scrape_request ?c ''https://example.com'' scrape_defaults)
             = Inr (ok_response ?body)"
    by (simp add: always_def)
  have 5: "client ?a (AsyncFirecrawlClient_scrape_request ?a ''https://example.com'' scrape_defaults)
             = Inr (ok_response ?body)"
    by (simp add: always_def)
  show ?thesis
    using scrape_example [OF 1 2 3 4 5] by blast
qed


section \<open>The members of OutputFormat (C3)\<close>

text \<open>
  C3, as the code has it.  \<open>OutputFormat\<close> is the closed set of the six strings
  \<open>markdown\<close>, \<open>html\<close>, \<open>rawHtml\<close>, \<open>links\<close>, \<open>screenshot\<close> and \<open>screenshot@fullPage\<close>: each
  of them validates to the member with that value, and every other string is rejected.
\<close>

theorem OutputFormat_closed_set:
  "(s \<in> {''markdown'', ''html'', ''rawHtml'', ''links'', ''screenshot'', ''screenshot@fullPage''}
      \<longrightarrow> (\<exists>m. OutputFormat_validate (JStr s) = Inr m \<and> OutputFormat_value m = s)) \<and>
   (s \<notin> {''markdown'', ''html'', ''rawHtml'', ''links'', ''screenshot'', ''screenshot@fullPage''}
      \<longrightarrow> OutputFormat_validate (JStr s) = Inl ValidationError)"
  by (auto simp: OutputFormat_validate_def enum_validate_def OutputFormat_members_def)

text \<open>The theorem at the sixth value and at a string outside the set.\<close>

theorem OutputFormat_closed_set_witness:
  "(\<exists>m. OutputFormat_validate (JStr ''screenshot@fullPage'') = Inr m
        \<and> OutputFormat_value m = ''screenshot@fullPage'') \<and>
   OutputFormat_validate (JStr ''pdf'') = Inl ValidationError"
  using OutputFormat_closed_set [of "''screenshot@fullPage''"]
    OutputFormat_closed_set [of "''pdf''"]
  by simp

text \<open>
  C3 as stated fails.  The string \<open>screenshot-full-page\<close> is rejected, and the string
  \<open>screenshot@fullPage\<close>, which is outside the set the claim lists, is accepted.
\<close>

theorem screenshot_full_page_is_not_a_member:
  "OutputFormat_validate (JStr ''screenshot-full-page'') = Inl ValidationError \<and>
   OutputFormat_validate (JStr ''screenshot@fullPage'') = Inr SCREENSHOT_FULL"
  by (simp add: OutputFormat_validate_def enum_validate_def OutputFormat_members_def)


section \<open>The two clients agree (C4)\<close>




section \<open>When scrape sends extract (C5)\<close>

text \<open>
  C5, as the code has it.  The payload of \<open>scrape\<close> has the key \<open>extract\<close> if and only if
  at least one of \<open>extract_schema\<close>, \<open>extract_system_prompt\<close>, \<open>extract_prompt\<close> is given
  with a non-empty value (a non-empty dict, a non-empty string); when none of the three
  is given, the payload has no \<open>extract\<close> key.
\<close>

theorem extract_iff_some_part_nonempty:
  "(''extract'' \<in> set (keys (FirecrawlClient_scrape_payload u so)))
     = (extract_schema so \<notin> {None, Some []} \<or> extract_system_prompt so \<notin> {None, Some ''''}
          \<or> extract_prompt so \<notin> {None, Some ''''}) \<and>
   (''extract'' \<in> set (keys (AsyncFirecrawlClient_scrape_payload u so)))
     = (extract_schema so \<notin> {None, Some []} \<or> extract_system_prompt so \<notin> {None, Some ''''}
          \<or> extract_prompt so \<notin> {None, Some ''''}) \<and>
   (extract_schema so = None \<and> extract_system_prompt so = None \<and> extract_prompt so = None
      \<longrightarrow> ''extract'' \<notin> set (keys (FirecrawlClient_scrape_payload u so))
        \<and> ''extract'' \<notin> set (keys (AsyncFirecrawlClient_scrape_payload u so)))"
  unfolding sync_scrape_payload_shape async_scrape_payload_shape keys_scrape_shape
  by (simp add: extract_wanted_def)

text \<open>The theorem with a prompt, with a schema, and with the default arguments.\<close>

theorem extract_iff_some_part_nonempty_witness:
  "''extract'' \<in> set (keys (FirecrawlClient_scrape_payload ''https://example.com''
       (scrape_defaults \<lparr> extract_prompt := Some ''Summarise'' \<rparr>))) \<and>
   ''extract'' \<in> set (keys (AsyncFirecrawlClient_scrape_payload ''https://example.com''
       (scrape_defaults \<lparr> extract_schema := Some [(''type'', JStr ''object'')] \<rparr>))) \<and>
   ''extract'' \<notin> set (keys (FirecrawlClient_scrape_payload ''https://example.com'' scrape_defaults)) \<and>
   ''extract'' \<notin> set (keys (AsyncFirecrawlClient_scrape_payload ''https://example.com'' scrape_defaults))"
  using extract_iff_some_part_nonempty
      [of "''https://example.com''" "scrape_defaults \<lparr> extract_prompt := Some ''Summarise'' \<rparr>"]
    extract_iff_some_part_nonempty
      [of "''https://example.com''"
          "scrape_defaults \<lparr> extract_schema := Some [(''type'', JStr ''object'')] \<rparr>"]
    extract_iff_some_part_nonempty [of "''https://example.com''" scrape_defaults]
  by (simp add: scrape_defaults_def)

text \<open>
  C5 as stated fails.  A caller that provides an empty schema and an empty prompt has
  provided two of the three arguments, and the payload has no \<open>extract\<close> key.
\<close>

theorem empty_extract_arguments_add_no_extract:
  "extract_schema (scrape_defaults \<lparr> extract_schema := Some [], extract_prompt := Some '''' \<rparr>)
     = Some [] \<and>
   extract_prompt (scrape_defaults \<lparr> extract_schema := Some [], extract_prompt := Some '''' \<rparr>)
     = Some '''' \<and>
   ''extract'' \<notin> set (keys (FirecrawlClient_scrape_payload ''https://example.com''
       (scrape_defaults \<lparr> extract_schema := Some [], extract_prompt := Some '''' \<rparr>))) \<and>
   ''extract'' \<notin> set (keys (AsyncFirecrawlClient_scrape_payload ''https://example.com''
       (scrape_defaults \<lparr> extract_schema := Some [], extract_prompt := Some '''' \<rparr>)))"
  by (simp add: FirecrawlClient_scrape_payload_def AsyncFirecrawlClient_scrape_payload_def
        scrape_defaults_def set_if_given_def truthy_def keys_def)


section \<open>The scrapeOptions object of crawl (C6)\<close>

text \<open>
  C6.  Every call of \<open>crawl\<close> builds a payload, sent as the JSON body of a POST to
  \<open>/crawl\<close>, with a nested \<open>scrapeOptions\<close> object that carries \<open>formats\<close> (the default
  \<open>["markdown"]\<close> unless a non-empty list is passed) and \<open>waitFor\<close>; \<open>scrapeOptions\<close> has the
  key \<open>headers\<close>, \<open>includeTags\<close> or \<open>excludeTags\<close> exactly when \<open>scrape_headers\<close>,
  \<open>scrape_include_tags\<close> or \<open>scrape_exclude_tags\<close> is supplied, and then with the value
  supplied.
\<close>

theorem crawl_scrapeOptions:
  "(\<exists>p. FirecrawlClient_crawl_payload u co = Inr p \<and>
        FirecrawlClient_crawl_request c u co =
          Inr \<lparr> verb = POST, request_url = base_url c @ ''/crawl'',
                json_payload = Some (JObj p) \<rparr> \<and>
        scrapeOptions_carries co p) \<and>
   (\<exists>p. AsyncFirecrawlClient_crawl_payload u co = Inr p \<and>
        AsyncFirecrawlClient_crawl_request a u co =
          Inr \<lparr> verb = POST, request_url = abase_url a @ ''/crawl'',
                json_payload = Some (JObj p) \<rparr> \<and>
        scrapeOptions_carries co p)"
  by (simp add: sync_crawl_payload_shape async_crawl_payload_shape crawl_shape_carries
        FirecrawlClient_crawl_request_def AsyncFirecrawlClient_crawl_request_def and_then_def)

text \<open>
  The theorem for \<open>scrape_headers={"X-A": "1"}\<close>: the value lies at
  \<open>scrapeOptions.headers\<close>.
\<close>

theorem crawl_scrapeOptions_witness:
  "(\<exists>p. FirecrawlClient_crawl_payload ''https://example.com''
          (crawl_defaults \<lparr> scrape_headers := Some [(''X-A'', JStr ''1'')] \<rparr>) = Inr p \<and>
        getpath (JObj p) [''scrapeOptions'', ''headers''] = Some (JObj [(''X-A'', JStr ''1'')]) \<and>
        getpath (JObj p) [''scrapeOptions'', ''formats''] = Some (JArr [JStr ''markdown'']) \<and>
        getpath (JObj p) [''scrapeOptions'', ''waitFor''] = Some (JInt 123) \<and>
        getpath (JObj p) [''scrapeOptions'', ''includeTags''] = None \<and>
        getpath (JObj p) [''scrapeOptions'', ''excludeTags''] = None)"
proof -
  let ?o = "crawl_defaults \<lparr> scrape_headers := Some [(''X-A'', JStr ''1'')] \<rparr>"
  obtain p where p: "FirecrawlClient_crawl_payload ''https://example.com'' ?o = Inr p"
      and c: "scrapeOptions_carries ?o p"
    using crawl_scrapeOptions [of "''https://example.com''" ?o] by blast
  have "getpath (JObj p) [''scrapeOptions'', ''headers''] = Some (JObj [(''X-A'', JStr ''1'')])"
    and "getpath (JObj p) [''scrapeOptions'', ''formats''] = Some (JArr [JStr ''markdown''])"
    and "getpath (JObj p) [''scrapeOptions'', ''waitFor''] = Some (JInt 123)"
    and "getpath (JObj p) [''scrapeOptions'', ''includeTags''] = None"
    and "getpath (JObj p) [''scrapeOptions'', ''excludeTags''] = None"
    using c
    by (simp_all add: scrapeOptions_carries_def crawl_defaults_def py_or_def str_list_def)
  with p show ?thesis by blast
qed


section \<open>A trailing slash on the base URL (C7)\<close>

text \<open>
  C7.  For every non-empty base URL \<open>b\<close>, both constructors succeed on \<open>b\<close> and on \<open>b\<close>
  with a slash appended, and the two clients obtained send every operation to the
  same URL.
\<close>

theorem trailing_slash_same_request_urls:
  assumes "b \<noteq> []"
  shows "(\<exists>c c'. FirecrawlClient_init t b = Inr c \<and> FirecrawlClient_init t (b @ ''/'') = Inr c' \<and>
            request_url (FirecrawlClient_scrape_request c u so)
              = request_url (FirecrawlClient_scrape_request c' u so) \<and>
            map_sum id request_url (FirecrawlClient_crawl_request c u co)
              = map_sum id request_url (FirecrawlClient_crawl_request c' u co) \<and>
            request_url (FirecrawlClient_get_crawl_status_request c j)
              = request_url (FirecrawlClient_get_crawl_status_request c' j) \<and>
            request_url (FirecrawlClient_cancel_crawl_request c j)
              = request_url (FirecrawlClient_cancel_crawl_request c' j) \<and>
            request_url (FirecrawlClient_map_request c u mo)
              = request_url (FirecrawlClient_map_request c' u mo)) \<and>
         (\<exists>a a'. AsyncFirecrawlClient_init t b = Inr a \<and>
            AsyncFirecrawlClient_init t (b @ ''/'') = Inr a' \<and>
            request_url (AsyncFirecrawlClient_scrape_request a u so)
              = request_url (AsyncFirecrawlClient_scrape_request a' u so) \<and>
            map_sum id request_url (AsyncFirecrawlClient_crawl_request a u co)
              = map_sum id request_url (AsyncFirecrawlClient_crawl_request a' u co) \<and>
            request_url (AsyncFirecrawlClient_get_crawl_status_request a j)
              = request_url (AsyncFirecrawlClient_get_crawl_status_request a' j) \<and>
            request_url (AsyncFirecrawlClient_cancel_crawl_request a j)
              = request_url (AsyncFirecrawlClient_cancel_crawl_request a' j) \<and>
            request_url (AsyncFirecrawlClient_map_request a u mo)
              = request_url (AsyncFirecrawlClient_map_request a' u mo))"
  using assms
  by (simp add: FirecrawlClient_init_def AsyncFirecrawlClient_init_def rstrip_slash_appended)

text \<open>The theorem for \<open>https://api.firecrawl.dev/v1\<close>, with the URLs written out.\<close>

theorem trailing_slash_same_request_urls_witness:
  "(\<exists>c c'. FirecrawlClient_init (always (ok_response JNull)) ''https://api.firecrawl.dev/v1'' = Inr c \<and>
      FirecrawlClient_init (always (ok_response JNull)) ''https://api.firecrawl.dev/v1/'' = Inr c' \<and>
      request_url (FirecrawlClient_scrape_request c ''https://example.com'' scrape_defaults)
        = ''https://api.firecrawl.dev/v1/scrape'' \<and>
      request_url (FirecrawlClient_scrape_request c' ''https://example.com'' scrape_defaults)
        = ''https://api.firecrawl.dev/v1/scrape'' \<and>
      request_url (FirecrawlClient_cancel_crawl_request c ''job-1'')
        = ''https://api.firecrawl.dev/v1/crawl/job-1'' \<and>
      request_url (FirecrawlClient_cancel_crawl_request c' ''job-1'')
        = ''https://api.firecrawl.dev/v1/crawl/job-1'')"
proof -
  let ?t = "always (ok_response JNull)"
  let ?b = "''https://api.firecrawl.dev/v1''"
  have ne: "?b \<noteq> []" by simp
  obtain c c' where c: "FirecrawlClient_init ?t ?b = Inr c"
      and c': "FirecrawlClient_init ?t (?b @ ''/'') = Inr c'"
      and s: "request_url (FirecrawlClient_scrape_request c ''https://example.com'' scrape_defaults)
                = request_url (FirecrawlClient_scrape_request c' ''https://example.com'' scrape_defaults)"
      and d: "request_url (FirecrawlClient_cancel_crawl_request c ''job-1'')
                = request_url (FirecrawlClient_cancel_crawl_request c' ''job-1'')"
    using trailing_slash_same_request_urls
      [OF ne, of ?t "''https://example.com''" scrape_defaults _ "''job-1''"]
    by blast
  have bc: "base_url c = ?b"
    using c by (auto simp: FirecrawlClient_init_def rstrip_def)
  have 1: "request_url (FirecrawlClient_scrape_request c ''https://example.com'' scrape_defaults)
             = ''https://api.firecrawl.dev/v1/scrape''"
    by (simp add: FirecrawlClient_scrape_request_def bc)
  have 2: "request_url (FirecrawlClient_cancel_crawl_request c ''job-1'')
             = ''https://api.firecrawl.dev/v1/crawl/job-1''"
    by (simp add: FirecrawlClient_cancel_crawl_request_def bc)
  have c'': "FirecrawlClient_init ?t ''https://api.firecrawl.dev/v1/'' = Inr c'"
    using c' by simp
  show ?thesis
    using c c'' 1 2 s d by (intro exI [of _ c] exI [of _ c']) simp
qed


section \<open>The result of cancel_crawl (C8)\<close>

text \<open>
  C8, as the code has it.  When the response passes the status check (as every 2xx
  response does) and its body decodes to a JSON object, \<open>cancel_crawl\<close> returns the value
  stored under \<open>success\<close>, so the server's boolean when it sends one, and returns \<open>False\<close>
  when the object has no \<open>success\<close> key.
\<close>

theorem cancel_crawl_returns_success_entry:
  assumes ok: "raise_for_status resp = None"
    and body: "resp_json resp = Inr (JObj d)"
    and s: "session c (FirecrawlClient_cancel_crawl_request c job) = Inr resp"
    and a: "client a (AsyncFirecrawlClient_cancel_crawl_request a job) = Inr resp"
  shows "(map_of d ''success'' = Some v \<longrightarrow>
            FirecrawlClient_cancel_crawl c job = Inr v \<and>
            AsyncFirecrawlClient_cancel_crawl a job = Inr v) \<and>
         (''success'' \<notin> set (keys d) \<longrightarrow>
            FirecrawlClient_cancel_crawl c job = Inr (JBool False) \<and>
            AsyncFirecrawlClient_cancel_crawl a job = Inr (JBool False))"
proof -
  have absent: "''success'' \<notin> set (keys d) \<Longrightarrow> map_of d ''success'' = None"
    by (simp add: keys_def map_of_eq_None_iff)
  have r1: "FirecrawlClient_cancel_crawl c job = get_default (JObj d) ''success'' (JBool False)"
    by (simp add: FirecrawlClient_cancel_crawl_def s and_then_def check_status_def ok body)
  have r2: "AsyncFirecrawlClient_cancel_crawl a job = get_default (JObj d) ''success'' (JBool False)"
    by (simp add: AsyncFirecrawlClient_cancel_crawl_def a and_then_def check_status_def ok body)
  show ?thesis
    unfolding r1 r2 using absent by (auto simp: get_default_def)
qed

text \<open>The theorem for the bodies \<open>{"success": true}\<close> and \<open>{"status": "cancelled"}\<close>.\<close>

theorem cancel_crawl_returns_success_entry_witness:
  "FirecrawlClient_cancel_crawl
      \<lparr> base_url = ''https://api.firecrawl.dev/v1'',
        session = always (ok_response (JObj [(''success'', JBool True)])) \<rparr> ''job-1''
     = Inr (JBool True) \<and>
   AsyncFirecrawlClient_cancel_crawl
      \<lparr> abase_url = ''https://api.firecrawl.dev/v1'',
        client = always (ok_response (JObj [(''status'', JStr ''cancelled'')])) \<rparr> ''job-1''
     = Inr (JBool False)"
proof -
  let ?d1 = "[(''success'', JBool True)]"
  let ?d2 = "[(''status'', JStr ''cancelled'')]"
  let ?c1 = "\<lparr> base_url = ''https://api.firecrawl.dev/v1'', session = always (ok_response (JObj ?d1)) \<rparr>"
  let ?a1 = "\<lparr> abase_url = ''https://api.firecrawl.dev/v1'', client = always (ok_response (JObj ?d1)) \<rparr>"
  let ?c2 = "\<lparr> base_url = ''https://api.firecrawl.dev/v1'', session = always (ok_response (JObj ?d2)) \<rparr>"
  let ?a2 = "\<lparr> abase_url = ''https://api.firecrawl.dev/v1'', client = always (ok_response (JObj ?d2)) \<rparr>"
  have ok: "\<And>b. raise_for_status (ok_response b) = None"
    and js: "\<And>b. resp_json (ok_response b) = Inr b"
    by (simp_all add: ok_response_def)
  have s1: "session ?c1 (FirecrawlClient_cancel_crawl_request ?c1 ''job-1'') = Inr (ok_response (JObj ?d1))"
    and a1: "client ?a1 (AsyncFirecrawlClient_cancel_crawl_request ?a1 ''job-1'') = Inr (ok_response (JObj ?d1))"
    and s2: "session ?c2 (FirecrawlClient_cancel_crawl_request ?c2 ''job-1'') = Inr (ok_response (JObj ?d2))"
    and a2: "client ?a2 (AsyncFirecrawlClient_cancel_crawl_request ?a2 ''job-1'') = Inr (ok_response (JObj ?d2))"
    by (simp_all add: always_def)
  have h1: "map_of ?d1 ''success'' = Some (JBool True)" by simp
  have h2: "''success'' \<notin> set (keys ?d2)" by (simp add: keys_def)
  show ?thesis
    using cancel_crawl_returns_success_entry [OF ok js s1 a1, of "JBool True"]
      cancel_crawl_returns_success_entry [OF ok js s2 a2] h1 h2
    by blast
qed

text \<open>
  C8 as stated fails.  The body \<open>[]\<close> of a response that passes the status check is
  valid JSON and lacks a \<open>success\<close> key; \<open>data.get\<close> does not exist on a list and the
  call ends with \<open>AttributeError\<close>.
\<close>

theorem cancel_crawl_fails_on_array_body:
  "FirecrawlClient_cancel_crawl
      \<lparr> base_url = ''https://api.firecrawl.dev/v1'',
        session = always (ok_response (JArr [])) \<rparr> ''job-1''
     = Inl AttributeError \<and>
   AsyncFirecrawlClient_cancel_crawl
      \<lparr> abase_url = ''https://api.firecrawl.dev/v1'',
        client = always (ok_response (JArr [])) \<rparr> ''job-1''
     = Inl AttributeError"
  by (simp add: FirecrawlClient_cancel_crawl_def AsyncFirecrawlClient_cancel_crawl_def
        always_def ok_response_def and_then_def check_status_def get_default_def)


section \<open>Undeclared fields of Metadata (C9)\<close>

text \<open>
  C9.  If an object validates as \<open>Metadata\<close>, then the object with one more entry, under
  a key that is not a declared field and not yet a key of the object, validates too;
  the instance obtained holds the new key with its value in its extra fields, next to
  the extra fields it had, and its declared fields are unchanged.
\<close>

theorem Metadata_keeps_extra_field:
  assumes valid: "Metadata_validate P (JObj (d1 @ d2)) = Inr m"
    and undeclared: "k \<notin> set Metadata_fields"
    and fresh: "k \<notin> set (keys (d1 @ d2))"
  shows "\<exists>m'. Metadata_validate P (JObj (d1 @ (k, v) # d2)) = Inr m' \<and>
              map_of (pydantic_extra m') k = Some v \<and>
              set (pydantic_extra m') = insert (k, v) (set (pydantic_extra m)) \<and>
              m' \<lparr> pydantic_extra := pydantic_extra m \<rparr> = m"
proof -
  let ?keep = "\<lambda>kv :: string \<times> json. fst kv \<notin> set Metadata_fields"
  let ?d' = "d1 @ (k, v) # d2"
  let ?m' = "m \<lparr> pydantic_extra := filter ?keep ?d' \<rparr>"
  have same: "\<And>f. f \<in> set Metadata_fields \<Longrightarrow> map_of ?d' f = map_of (d1 @ d2) f"
    using undeclared by (intro map_of_insert_other) auto
  have res: "Metadata_validate P (JObj ?d') = Inr ?m'"
    using Metadata_validate_lookups [of ?d' "d1 @ d2" P, OF same] valid by simp
  have ex: "pydantic_extra m = filter ?keep (d1 @ d2)"
    by (rule Metadata_validate_extra [OF valid])
  have split: "filter ?keep ?d' = filter ?keep d1 @ (k, v) # filter ?keep d2"
    using undeclared by simp
  have "k \<notin> fst ` set (filter ?keep d1)"
    using fresh by (auto simp: keys_def)
  then have look: "map_of (filter ?keep ?d') k = Some v"
    unfolding split by (rule map_of_middle)
  have els: "set (filter ?keep ?d') = insert (k, v) (set (pydantic_extra m))"
    unfolding split ex by auto
  have rest: "?m' \<lparr> pydantic_extra := pydantic_extra m \<rparr> = m"
    by simp
  show ?thesis
    using res look els rest by (intro exI [of _ ?m']) simp
qed

text \<open>
  The theorem for \<open>{"sourceURL": "https://example.com", "statusCode": 200}\<close> and the
  extra field \<open>ogImage\<close>.
\<close>

theorem Metadata_keeps_extra_field_witness:
  "\<exists>m'. Metadata_validate example_pydantic
           (JObj [(''sourceURL'', JStr ''https://example.com''), (''statusCode'', JInt 200),
                  (''ogImage'', JStr ''https://example.com/og.png'')]) = Inr m' \<and>
         map_of (pydantic_extra m') ''ogImage'' = Some (JStr ''https://example.com/og.png'') \<and>
         sourceURL m' = ''https://example.com'' \<and> statusCode m' = 200"
proof -
  let ?d1 = "[(''sourceURL'', JStr ''https://example.com''), (''statusCode'', JInt 200)]"
  let ?m = "\<lparr> title = None, description = None, language = None,
             sourceURL = ''https://example.com'', statusCode = 200, error = None,
             pydantic_extra = [] \<rparr>"
  have valid: "Metadata_validate example_pydantic (JObj (?d1 @ [])) = Inr ?m"
    by (simp add: Metadata_validate_def optional_field_def required_field_def and_then_def
          validate_url_def validate_int_def from_option_def example_pydantic_def
          Metadata_fields_def)
  have undeclared: "''ogImage'' \<notin> set Metadata_fields"
    by (simp add: Metadata_fields_def)
  have fresh: "''ogImage'' \<notin> set (keys (?d1 @ []))"
    by (simp add: keys_def)
  obtain m' where r: "Metadata_validate example_pydantic
          (JObj (?d1 @ (''ogImage'', JStr ''https://example.com/og.png'') # [])) = Inr m'"
      and l: "map_of (pydantic_extra m') ''ogImage'' = Some (JStr ''https://example.com/og.png'')"
      and b: "m' \<lparr> pydantic_extra := pydantic_extra ?m \<rparr> = ?m"
    using Metadata_keeps_extra_field [OF valid undeclared fresh] by blast
  have "sourceURL (m' \<lparr> pydantic_extra := pydantic_extra ?m \<rparr>) = ''https://example.com''"
    and "statusCode (m' \<lparr> pydantic_extra := pydantic_extra ?m \<rparr>) = 200"
    unfolding b by simp_all
  then have "sourceURL m' = ''https://example.com''" and "statusCode m' = 200"
    by simp_all
  with r l show ?thesis
    by (intro exI [of _ m']) simp
qed


section \<open>An empty list of formats (C10)\<close>

text \<open>
  C10.  For both clients, \<open>scrape\<close> with \<open>formats=[]\<close> and \<open>crawl\<close> with \<open>scrape_formats=[]\<close>
  send \<open>["markdown"]\<close> as the formats, as they do when the argument is omitted.
\<close>

theorem empty_formats_get_default:
  "(formats so \<in> {None, Some []} \<longrightarrow>
      map_of (FirecrawlClient_scrape_payload u so) ''formats'' = Some (JArr [JStr ''markdown'']) \<and>
      map_of (AsyncFirecrawlClient_scrape_payload u so) ''formats'' = Some (JArr [JStr ''markdown''])) \<and>
   (scrape_formats co \<in> {None, Some []} \<longrightarrow>
      (\<exists>p. FirecrawlClient_crawl_payload u co = Inr p \<and>
           getpath (JObj p) [''scrapeOptions'', ''formats''] = Some (JArr [JStr ''markdown''])) \<and>
      (\<exists>p. AsyncFirecrawlClient_crawl_payload u co = Inr p \<and>
           getpath (JObj p) [''scrapeOptions'', ''formats''] = Some (JArr [JStr ''markdown''])))"
  unfolding sync_scrape_payload_shape async_scrape_payload_shape
    sync_crawl_payload_shape async_crawl_payload_shape
  by (auto simp: scrape_shape_def scrapeOptions_of_crawl_shape scrapeOptions_shape_def
        py_or_def str_list_def)

text \<open>The theorem for the empty list.\<close>

theorem empty_formats_get_default_witness:
  "map_of (FirecrawlClient_scrape_payload ''https://example.com''
             (scrape_defaults \<lparr> formats := Some [] \<rparr>)) ''formats''
     = Some (JArr [JStr ''markdown'']) \<and>
   map_of (AsyncFirecrawlClient_scrape_payload ''https://example.com''
             (scrape_defaults \<lparr> formats := Some [] \<rparr>)) ''formats''
     = Some (JArr [JStr ''markdown'']) \<and>
   (\<exists>p. FirecrawlClient_crawl_payload ''https://example.com''
           (crawl_defaults \<lparr> scrape_formats := Some [] \<rparr>) = Inr p \<and>
        getpath (JObj p) [''scrapeOptions'', ''formats''] = Some (JArr [JStr ''markdown''])) \<and>
   (\<exists>p. AsyncFirecrawlClient_crawl_payload ''https://example.com''
           (crawl_defaults \<lparr> scrape_formats := Some [] \<rparr>) = Inr p \<and>
        getpath (JObj p) [''scrapeOptions'', ''formats''] = Some (JArr [JStr ''markdown'']))"
  using empty_formats_get_default
    [of "scrape_defaults \<lparr> formats := Some [] \<rparr>" "''https://example.com''"
        "crawl_defaults \<lparr> scrape_formats := Some [] \<rparr>"]
  by simp

end
